theory Spec2Isabelle
  imports Main "HOL-Library.AList"
begin

section \<open>Exceptions and effectful computations\<close>

text \<open>
  The TypeScript sources throw and catch exceptions and read and write mutable objects.
  An exception is a value of \<open>exn\<close>; a computation over a state \<open>'s\<close> returns either
  the exception it raised (\<open>Inl\<close>) or its result (\<open>Inr\<close>), together with the state it left.
\<close>

datatype exn =
    ReferenceError string
  | SyntaxError
  | SecurityError
  | QuotaExceededError
  | ZodError string
  | Error string

type_synonym ('s, 'a) js = "'s \<Rightarrow> (exn + 'a) \<times> 's"

definition js_return :: "'a \<Rightarrow> ('s, 'a) js" where
  "js_return x = (\<lambda>s. (Inr x, s))"

definition js_throw :: "exn \<Rightarrow> ('s, 'a) js" where
  "js_throw e = (\<lambda>s. (Inl e, s))"

definition js_bind :: "('s, 'a) js \<Rightarrow> ('a \<Rightarrow> ('s, 'b) js) \<Rightarrow> ('s, 'b) js" where
  "js_bind m f = (\<lambda>s. case m s of (Inl e, s') \<Rightarrow> (Inl e, s') | (Inr x, s') \<Rightarrow> f x s')"

definition js_lift :: "exn + 'a \<Rightarrow> ('s, 'a) js" where
  \<comment> \<open>a call of a function that may throw and touches no state\<close>
  "js_lift r = (\<lambda>s. (r, s))"

definition try_catch :: "('s, 'a) js \<Rightarrow> ('s, 'a) js \<Rightarrow> ('s, 'a) js" where
  \<comment> \<open>\<open>try { body } catch { handler }\<close>: the handler does not bind the exception, and
      runs in the state the body left when it threw\<close>
  "try_catch body handler =
     (\<lambda>s. case body s of (Inl e, s') \<Rightarrow> handler s' | (Inr x, s') \<Rightarrow> (Inr x, s'))"

section \<open>The reference unwrapper\<close>

text \<open>
  \<^verbatim>\<open>export function derefNotNull<T>(ref: React.RefObject<T | null>): T {
    const value = ref.current;
    if (value === null) {
      throw new ReferenceError("Attempting to dereference null object.");
    }
    return value;
  }\<close>
  A \<open>RefObject\<close> is a mutable cell with the one field \<open>current\<close>; \<open>None\<close> is \<open>null\<close>.
  The argument is a reference to such a cell: an address into the store of cells.
\<close>

record 'a RefObject =
  current :: "'a option"

type_synonym 'a cells = "nat \<Rightarrow> 'a RefObject"

definition derefNotNull :: "nat \<Rightarrow> ('a cells, 'a) js" where
  "derefNotNull ref =
     (\<lambda>h. case current (h ref) of
            None \<Rightarrow> js_throw (ReferenceError ''Attempting to dereference null object.'') h
          | Some v \<Rightarrow> js_return v h)"

section \<open>JavaScript values and JSON\<close>

text \<open>
  The stores are generic in \<open>T\<close>, and TypeScript erases \<open>T\<close>: at run time \<open>get\<close> returns
  whatever \<open>JSON.parse\<close> built and \<open>set\<close> serialises whatever it is given. The values
  are therefore the JavaScript values that are trees: \<open>undefined\<close>, \<open>null\<close>, booleans,
  numbers, strings, arrays and plain objects (an association list in property order).

  Modelled from the spec: \<open>JSON.parse\<close> and \<open>JSON.stringify\<close> belong to the platform,
  not to the repository. The spec only says that the value is "persisted as a
  JSON-encoded string" and that JSON cannot represent \<open>undefined\<close> fields or non-finite
  numbers; the grammar below is the JSON grammar (ECMA-404) and the serialisation follows
  ECMAScript's. Two simplifications, neither of which a property below depends on:
  a finite number is the exact decimal \<open>m * 10 ^ e\<close> its numeral denotes (binary64 rounding
  and the sign of zero are left out), and a character is one of the 256 values of \<open>char\<close>
  (an escape \<open>\uXXXX\<close> above \<open>00FF\<close> is cut to its low byte).
\<close>

datatype number = Decimal int int | NaN | PosInfinity | NegInfinity

datatype jsvalue =
    JUndefined
  | JNull
  | JBoolean bool
  | JNumber number
  | JString string
  | JArray "jsvalue list"
  | JObject "(string \<times> jsvalue) list"

subsection \<open>Numerals\<close>

text \<open>\<open>decimal m e\<close> is the number \<open>m * 10 ^ e\<close> in normal form: no trailing zero in \<open>m\<close>.\<close>

function decimal :: "int \<Rightarrow> int \<Rightarrow> number" where
  "decimal m e =
     (if m = 0 then Decimal 0 0
      else if m mod 10 = 0 then decimal (m div 10) (e + 1)
      else Decimal m e)"
  by pat_completeness auto
termination
  by (relation "measure (\<lambda>(m, e). nat \<bar>m\<bar>)") auto

definition is_digit :: "char \<Rightarrow> bool" where
  "is_digit c = (48 \<le> (of_char c :: nat) \<and> (of_char c :: nat) \<le> 57)"

definition digit_val :: "char \<Rightarrow> nat" where
  "digit_val c = of_char c - 48"

definition digits_val :: "string \<Rightarrow> nat" where
  "digits_val ds = foldl (\<lambda>n c. 10 * n + digit_val c) 0 ds"

definition all_digits :: "string \<Rightarrow> int option" where
  "all_digits ds = (if ds \<noteq> [] \<and> list_all is_digit ds then Some (int (digits_val ds)) else None)"

definition exponent_of :: "string \<Rightarrow> int option" where
  "exponent_of s =
     (case s of
        [] \<Rightarrow> None
      | c # r \<Rightarrow>
          if c = CHR ''+'' then all_digits r
          else if c = CHR ''-'' then map_option uminus (all_digits r)
          else all_digits s)"

definition number_of :: "string \<Rightarrow> number option" where
  "number_of s =
     (let (neg, s1) = (case s of [] \<Rightarrow> (False, s) | c # r \<Rightarrow> if c = CHR ''-'' then (True, r) else (False, s));
          ip = takeWhile is_digit s1;
          s2 = dropWhile is_digit s1;
          (fp, s3) = (case s2 of [] \<Rightarrow> (None, s2)
                      | c # r \<Rightarrow> if c = CHR ''.'' then (Some (takeWhile is_digit r), dropWhile is_digit r)
                                 else (None, s2));
          ex = (case s3 of [] \<Rightarrow> Some 0
                | c # r \<Rightarrow> if c = CHR ''e'' \<or> c = CHR ''E'' then exponent_of r else None)
      in case ip of
           [] \<Rightarrow> None
         | d # ds \<Rightarrow>
             if d = CHR ''0'' \<and> ds \<noteq> [] then None
             else if fp = Some [] then None
             else (case ex of
                     None \<Rightarrow> None
                   | Some e \<Rightarrow>
                       let f = (case fp of None \<Rightarrow> [] | Some x \<Rightarrow> x);
                           m = int (digits_val (ip @ f))
                       in Some (decimal (if neg then - m else m) (e - int (length f)))))"

subsection \<open>\<open>JSON.parse\<close>: tokens\<close>

datatype token =
    T_LBrace | T_RBrace | T_LBracket | T_RBracket | T_Colon | T_Comma
  | T_String string | T_Number number | T_True | T_False | T_Null

definition is_ws :: "char \<Rightarrow> bool" where
  "is_ws c = (c = CHR 0x20 \<or> c = CHR 0x09 \<or> c = CHR 0x0A \<or> c = CHR 0x0D)"

definition is_num_char :: "char \<Rightarrow> bool" where
  "is_num_char c = (is_digit c \<or> c = CHR ''-'' \<or> c = CHR ''+'' \<or> c = CHR ''.'' \<or> c = CHR ''e'' \<or> c = CHR ''E'')"

definition hex_val :: "char \<Rightarrow> nat option" where
  "hex_val c =
     (let n = (of_char c :: nat)
      in if 48 \<le> n \<and> n \<le> 57 then Some (n - 48)
         else if 65 \<le> n \<and> n \<le> 70 then Some (n - 55)
         else if 97 \<le> n \<and> n \<le> 102 then Some (n - 87)
         else None)"

definition hex4 :: "char \<Rightarrow> char \<Rightarrow> char \<Rightarrow> char \<Rightarrow> nat option" where
  "hex4 a b c d =
     (case (hex_val a, hex_val b, hex_val c, hex_val d) of
        (Some w, Some x, Some y, Some z) \<Rightarrow> Some (((w * 16 + x) * 16 + y) * 16 + z)
      | _ \<Rightarrow> None)"

definition unescape :: "char \<Rightarrow> char option" where
  "unescape e =
     (if e = CHR 0x22 \<or> e = CHR 0x5C \<or> e = CHR ''/'' then Some e
      else if e = CHR ''b'' then Some (CHR 0x08)
      else if e = CHR ''f'' then Some (CHR 0x0C)
      else if e = CHR ''n'' then Some (CHR 0x0A)
      else if e = CHR ''r'' then Some (CHR 0x0D)
      else if e = CHR ''t'' then Some (CHR 0x09)
      else None)"

definition emit :: "token \<Rightarrow> token list option \<Rightarrow> token list option" where
  "emit t r = map_option ((#) t) r"

function (sequential) tokenize :: "string \<Rightarrow> token list option"
  and tokenize_string :: "string \<Rightarrow> string \<Rightarrow> token list option" where
  "tokenize [] = Some []"
| "tokenize (c # cs) =
     (if is_ws c then tokenize cs
      else if c = CHR ''{'' then emit T_LBrace (tokenize cs)
      else if c = CHR ''}'' then emit T_RBrace (tokenize cs)
      else if c = CHR ''['' then emit T_LBracket (tokenize cs)
      else if c = CHR '']'' then emit T_RBracket (tokenize cs)
      else if c = CHR '':'' then emit T_Colon (tokenize cs)
      else if c = CHR '','' then emit T_Comma (tokenize cs)
      else if c = CHR 0x22 then tokenize_string [] cs
      else if c = CHR ''t'' then
        (case cs of
           x # y # z # r \<Rightarrow> if [x, y, z] = ''rue'' then emit T_True (tokenize r) else None
         | _ \<Rightarrow> None)
      else if c = CHR ''f'' then
        (case cs of
           w # x # y # z # r \<Rightarrow> if [w, x, y, z] = ''alse'' then emit T_False (tokenize r) else None
         | _ \<Rightarrow> None)
      else if c = CHR ''n'' then
        (case cs of
           x # y # z # r \<Rightarrow> if [x, y, z] = ''ull'' then emit T_Null (tokenize r) else None
         | _ \<Rightarrow> None)
      else if c = CHR ''-'' \<or> is_digit c then
        (case number_of (c # takeWhile is_num_char cs) of
           None \<Rightarrow> None
         | Some n \<Rightarrow> emit (T_Number n) (tokenize (dropWhile is_num_char cs)))
      else None)"
| "tokenize_string acc [] = None"
| "tokenize_string acc (c # cs) =
     (if c = CHR 0x22 then emit (T_String (rev acc)) (tokenize cs)
      else if c = CHR 0x5C then
        (case cs of
           [] \<Rightarrow> None
         | e # r \<Rightarrow>
             if e = CHR ''u'' then
               (case r of
                  h1 # h2 # h3 # h4 # r' \<Rightarrow>
                    (case hex4 h1 h2 h3 h4 of
                       None \<Rightarrow> None
                     | Some n \<Rightarrow> tokenize_string (char_of n # acc) r')
                | _ \<Rightarrow> None)
             else (case unescape e of None \<Rightarrow> None | Some x \<Rightarrow> tokenize_string (x # acc) r))
      else if (of_char c :: nat) < 32 then None
      else tokenize_string (c # acc) cs)"
  by pat_completeness auto
termination
  by (relation "measure (\<lambda>x. case x of Inl cs \<Rightarrow> length cs | Inr (acc, cs) \<Rightarrow> length cs)")
     (simp_all add: le_imp_less_Suc length_dropWhile_le)

subsection \<open>\<open>JSON.parse\<close>: values\<close>

text \<open>
  The tokens are read left to right with a stack of the arrays and objects that are still
  open. A key that occurs twice keeps its first position and its last value.
\<close>

datatype frame = ArrayFrame "jsvalue list" | ObjectFrame "(string \<times> jsvalue) list" string

datatype expect =
    E_Value
  | E_ValueOrClose
  | E_KeyOrClose
  | E_Key "(string \<times> jsvalue) list"
  | E_Colon "(string \<times> jsvalue) list" string
  | E_After jsvalue

fun scalar :: "token \<Rightarrow> jsvalue option" where
  "scalar (T_String s) = Some (JString s)"
| "scalar (T_Number n) = Some (JNumber n)"
| "scalar T_True = Some (JBoolean True)"
| "scalar T_False = Some (JBoolean False)"
| "scalar T_Null = Some JNull"
| "scalar _ = None"

fun begin_value :: "frame list \<Rightarrow> token \<Rightarrow> (frame list \<times> expect) option" where
  "begin_value st T_LBracket = Some (ArrayFrame [] # st, E_ValueOrClose)"
| "begin_value st T_LBrace = Some (st, E_KeyOrClose)"
| "begin_value st t = map_option (\<lambda>v. (st, E_After v)) (scalar t)"

fun parse_step :: "frame list \<Rightarrow> expect \<Rightarrow> token \<Rightarrow> (frame list \<times> expect) option" where
  "parse_step st E_Value t = begin_value st t"
| "parse_step (ArrayFrame [] # st) E_ValueOrClose T_RBracket = Some (st, E_After (JArray []))"
| "parse_step st E_ValueOrClose t = begin_value st t"
| "parse_step st E_KeyOrClose T_RBrace = Some (st, E_After (JObject []))"
| "parse_step st E_KeyOrClose (T_String k) = Some (st, E_Colon [] k)"
| "parse_step st (E_Key ms) (T_String k) = Some (st, E_Colon ms k)"
| "parse_step st (E_Colon ms k) T_Colon = Some (ObjectFrame ms k # st, E_Value)"
| "parse_step (ArrayFrame vs # st) (E_After v) T_Comma = Some (ArrayFrame (vs @ [v]) # st, E_Value)"
| "parse_step (ArrayFrame vs # st) (E_After v) T_RBracket = Some (st, E_After (JArray (vs @ [v])))"
| "parse_step (ObjectFrame ms k # st) (E_After v) T_Comma = Some (st, E_Key (AList.update k v ms))"
| "parse_step (ObjectFrame ms k # st) (E_After v) T_RBrace = Some (st, E_After (JObject (AList.update k v ms)))"
| "parse_step _ _ _ = None"

fun parse_tokens :: "frame list \<Rightarrow> expect \<Rightarrow> token list \<Rightarrow> jsvalue option" where
  "parse_tokens [] (E_After v) [] = Some v"
| "parse_tokens st ex [] = None"
| "parse_tokens st ex (t # ts) =
     (case parse_step st ex t of None \<Rightarrow> None | Some (st', ex') \<Rightarrow> parse_tokens st' ex' ts)"

definition JSON_parse :: "string \<Rightarrow> exn + jsvalue" where
  "JSON_parse text =
     (case tokenize text of
        None \<Rightarrow> Inl SyntaxError
      | Some ts \<Rightarrow> (case parse_tokens [] E_Value ts of None \<Rightarrow> Inl SyntaxError | Some v \<Rightarrow> Inr v))"

subsection \<open>\<open>JSON.stringify\<close>\<close>

text \<open>
  \<open>serialize v = None\<close> is the result \<open>undefined\<close>: \<open>undefined\<close> itself has no JSON
  text, it becomes \<open>null\<close> inside an array, and a property that holds it is left out.
  \<open>NaN\<close> and the infinities become \<open>null\<close>.
\<close>

definition digit_char :: "nat \<Rightarrow> char" where
  "digit_char n = ''0123456789'' ! n"

function digits_of :: "nat \<Rightarrow> string" where
  "digits_of n = (if n < 10 then [digit_char n] else digits_of (n div 10) @ [digit_char (n mod 10)])"
  by pat_completeness auto
termination
  by (relation "measure id") auto

definition number_text :: "number \<Rightarrow> string" where
  "number_text x =
     (case x of
        Decimal m e \<Rightarrow>
          (let ds = digits_of (nat \<bar>m\<bar>);
               body =
                 (if 0 \<le> e then (if m = 0 then ds else ds @ replicate (nat e) (CHR ''0''))
                  else let k = nat (- e)
                       in if k < length ds
                          then take (length ds - k) ds @ ''.'' @ drop (length ds - k) ds
                          else ''0.'' @ replicate (k - length ds) (CHR ''0'') @ ds)
           in if m < 0 then CHR ''-'' # body else body)
      | _ \<Rightarrow> ''null'')"

definition hex_char :: "nat \<Rightarrow> char" where
  "hex_char n = ''0123456789abcdef'' ! n"

definition escape_char :: "char \<Rightarrow> string" where
  "escape_char c =
     (if c = CHR 0x22 then [CHR 0x5C, CHR 0x22]
      else if c = CHR 0x5C then [CHR 0x5C, CHR 0x5C]
      else if c = CHR 0x08 then [CHR 0x5C, CHR ''b'']
      else if c = CHR 0x0C then [CHR 0x5C, CHR ''f'']
      else if c = CHR 0x0A then [CHR 0x5C, CHR ''n'']
      else if c = CHR 0x0D then [CHR 0x5C, CHR ''r'']
      else if c = CHR 0x09 then [CHR 0x5C, CHR ''t'']
      else if (of_char c :: nat) < 32
        then [CHR 0x5C, CHR ''u'', CHR ''0'', CHR ''0'', hex_char (of_char c div 16), hex_char (of_char c mod 16)]
      else [c])"

definition quote :: "string \<Rightarrow> string" where
  "quote s = CHR 0x22 # concat (map escape_char s) @ [CHR 0x22]"

fun join :: "string list \<Rightarrow> string" where
  "join [] = []"
| "join [t] = t"
| "join (t # ts) = t @ CHR '','' # join ts"

fun serialize :: "jsvalue \<Rightarrow> string option" where
  "serialize JUndefined = None"
| "serialize JNull = Some ''null''"
| "serialize (JBoolean b) = Some (if b then ''true'' else ''false'')"
| "serialize (JNumber x) = Some (number_text x)"
| "serialize (JString s) = Some (quote s)"
| "serialize (JArray vs) =
     Some (''['' @ join (map (\<lambda>v. case serialize v of None \<Rightarrow> ''null'' | Some t \<Rightarrow> t) vs) @ '']'')"
| "serialize (JObject ms) =
     Some (''{'' @ join (concat (map (\<lambda>m. case serialize (snd m) of
                                           None \<Rightarrow> []
                                         | Some t \<Rightarrow> [quote (fst m) @ '':'' @ t]) ms)) @ ''}'')"

definition JSON_stringify :: "jsvalue \<Rightarrow> string option" where
  "JSON_stringify v = serialize v"

section \<open>The persistent key-value store\<close>

text \<open>
  Modelled from the spec: \<open>window.localStorage\<close> belongs to the browser. The spec
  describes it as "a flat namespace mapping string keys to string values, supporting get,
  set, and remove by key", whose reads can fail ("storage access error") and whose writes
  can fail ("storage quota/availability issues"). A store is its entries in insertion
  order, whether the page may use it, and how many characters of keys and values it can
  hold. Reaching \<open>window.localStorage\<close> on a page that may not use it throws, whatever
  the operation: the sources write \<open>window.localStorage.getItem\<close>,
  \<open>window.localStorage.setItem\<close> and \<open>window.localStorage.removeItem\<close> alike.
\<close>

record Storage =
  items :: "(string \<times> string) list"
  available :: bool
  quota :: nat

definition usage :: "(string \<times> string) list \<Rightarrow> nat" where
  "usage kvs = sum_list (map (\<lambda>kv. length (fst kv) + length (snd kv)) kvs)"

definition getItem :: "string \<Rightarrow> (Storage, string option) js" where
  \<comment> \<open>the text under the key, or \<open>null\<close> (\<open>None\<close>)\<close>
  "getItem k =
     (\<lambda>s. if available s then js_return (map_of (items s) k) s else js_throw SecurityError s)"

definition setItem :: "string \<Rightarrow> string \<Rightarrow> (Storage, unit) js" where
  "setItem k v =
     (\<lambda>s. if \<not> available s then js_throw SecurityError s
          else if quota s < usage (AList.update k v (items s)) then js_throw QuotaExceededError s
          else js_return () (s\<lparr>items := AList.update k v (items s)\<rparr>))"

definition removeItem :: "string \<Rightarrow> (Storage, unit) js" where
  "removeItem k =
     (\<lambda>s. if \<not> available s then js_throw SecurityError s
          else js_return () (s\<lparr>items := AList.delete k (items s)\<rparr>))"

definition ToString :: "string option \<Rightarrow> string" where
  \<comment> \<open>\<open>setItem\<close> and \<open>JSON.parse\<close> convert their argument to a string: \<open>undefined\<close>
      becomes the text \<open>undefined\<close>\<close>
  "ToString r = (case r of None \<Rightarrow> ''undefined'' | Some t \<Rightarrow> t)"

text \<open>
  The state of a page: its \<open>localStorage\<close>, and the rest of the program's state, which
  the stores never touch but a default-value producer may read and change.
\<close>

record 'u window =
  localStorage :: Storage
  program :: 'u

definition window_localStorage :: "(Storage, 'a) js \<Rightarrow> ('u window, 'a) js" where
  "window_localStorage m =
     (\<lambda>w. case m (localStorage w) of (r, s') \<Rightarrow> (r, w\<lparr>localStorage := s'\<rparr>))"

section \<open>The typed store\<close>

text \<open>
  \<^verbatim>\<open>export class TypedLocalStorage<T> {
    constructor(private key: string, private defaultValue: T) {}
    get(): T {
      try {
        const item = window.localStorage.getItem(this.key);
        return item ? (JSON.parse(item) as T) : this.defaultValue;
      } catch {
        return this.defaultValue;
      }
    }
    set(value: T) {
      window.localStorage.setItem(this.key, JSON.stringify(value));
    }
  }\<close>
  In \<open>item ? a : b\<close> the item is a string or \<open>null\<close>; \<open>null\<close> and the empty string are
  falsy. The cast \<open>as T\<close> does nothing at run time.
\<close>

record TypedLocalStorage =
  key :: string
  defaultValue :: jsvalue

definition TypedLocalStorage_get :: "TypedLocalStorage \<Rightarrow> ('u window, jsvalue) js" where
  "TypedLocalStorage_get this =
     try_catch
       (js_bind (window_localStorage (getItem (TypedLocalStorage.key this)))
          (\<lambda>item. case item of
                     None \<Rightarrow> js_return (defaultValue this)
                   | Some text \<Rightarrow>
                       if text \<noteq> [] then js_lift (JSON_parse text)
                       else js_return (defaultValue this)))
       (js_return (defaultValue this))"

definition TypedLocalStorage_set :: "TypedLocalStorage \<Rightarrow> jsvalue \<Rightarrow> ('u window, unit) js" where
  "TypedLocalStorage_set this v =
     window_localStorage (setItem (TypedLocalStorage.key this) (ToString (JSON_stringify v)))"

section \<open>The validated store\<close>

text \<open>
  \<^verbatim>\<open>export class ZodLocalStorage<T> {
    constructor(
      private key: string,
      private schema: ZodType<T, ZodTypeDef, unknown>,
      private getDefaultValue: () => T,
    ) {}
    get(): T {
      try {
        const item = window.localStorage.getItem(this.key);
        return item
          ? this.schema.parse(JSON.parse(item))
          : this.getDefaultValue();
      } catch {
        return this.getDefaultValue();
      }
    }
    set(value: T) {
      window.localStorage.setItem(this.key, JSON.stringify(value));
    }
    remove() {
      window.localStorage.removeItem(this.key);
    }
  }\<close>
  Modelled from the spec: the schema and the producer are supplied by the caller. The
  schema validator, "given an untyped decoded value, returns a validated, typed value or
  raises a validation failure": a function into \<open>exn + jsvalue\<close>. The default is
  "a zero-argument producer function", "computed fresh each call": a function of the
  program's state that returns a value or throws, and leaves a state, so that two calls
  can tell a fresh value from a cached one. \<open>get\<close> calls it inside the \<open>try\<close> and again
  inside the \<open>catch\<close>, where nothing guards it.
\<close>

record 'u ZodLocalStorage =
  key :: string
  schema :: "jsvalue \<Rightarrow> exn + jsvalue"
  getDefaultValue :: "'u \<Rightarrow> (exn + jsvalue) \<times> 'u"

definition call_producer :: "('u \<Rightarrow> (exn + 'a) \<times> 'u) \<Rightarrow> ('u window, 'a) js" where
  "call_producer f = (\<lambda>w. case f (program w) of (r, u') \<Rightarrow> (r, w\<lparr>program := u'\<rparr>))"

definition ZodLocalStorage_get :: "'u ZodLocalStorage \<Rightarrow> ('u window, jsvalue) js" where
  "ZodLocalStorage_get this =
     try_catch
       (js_bind (window_localStorage (getItem (ZodLocalStorage.key this)))
          (\<lambda>item. case item of
                     None \<Rightarrow> call_producer (getDefaultValue this)
                   | Some text \<Rightarrow>
                       if text \<noteq> [] then js_bind (js_lift (JSON_parse text)) (\<lambda>v. js_lift (schema this v))
                       else call_producer (getDefaultValue this)))
       (call_producer (getDefaultValue this))"

definition ZodLocalStorage_set :: "'u ZodLocalStorage \<Rightarrow> jsvalue \<Rightarrow> ('u window, unit) js" where
  "ZodLocalStorage_set this v =
     window_localStorage (setItem (ZodLocalStorage.key this) (ToString (JSON_stringify v)))"

definition ZodLocalStorage_remove :: "'u ZodLocalStorage \<Rightarrow> ('u window, unit) js" where
  "ZodLocalStorage_remove this = window_localStorage (removeItem (ZodLocalStorage.key this))"

section \<open>The words of the properties\<close>

text \<open>
  The text stored under a key, and the ways a read can fail: the key is missing, the
  storage cannot be read, the text is not JSON, or (validated store) the decoded value
  fails the schema.
\<close>

definition stored_text :: "string \<Rightarrow> 'u window \<Rightarrow> string option" where
  "stored_text k w = map_of (items (localStorage w)) k"

definition missing_key :: "string \<Rightarrow> 'u window \<Rightarrow> bool" where
  "missing_key k w = (stored_text k w = None)"

definition read_error :: "'u window \<Rightarrow> bool" where
  "read_error w = (\<not> available (localStorage w))"

definition malformed_JSON :: "string \<Rightarrow> 'u window \<Rightarrow> bool" where
  "malformed_JSON k w = (case stored_text k w of None \<Rightarrow> False | Some text \<Rightarrow> isl (JSON_parse text))"

definition validation_failure :: "'u ZodLocalStorage \<Rightarrow> 'u window \<Rightarrow> bool" where
  "validation_failure this w =
     (case stored_text (ZodLocalStorage.key this) w of
        None \<Rightarrow> False
      | Some text \<Rightarrow> (case JSON_parse text of Inl e \<Rightarrow> False | Inr v \<Rightarrow> isl (schema this v)))"

definition json_roundtrip :: "jsvalue \<Rightarrow> exn + jsvalue" where
  \<comment> \<open>\<open>JSON.parse(JSON.stringify(v))\<close>\<close>
  "json_roundtrip v = JSON_parse (ToString (JSON_stringify v))"


definition is_string :: "jsvalue \<Rightarrow> bool" where
  "is_string v = (case v of JString s \<Rightarrow> True | _ \<Rightarrow> False)"

section \<open>A page with a theme\<close>

text \<open>
  The spec's scenario: a store with key \<open>theme\<close> and default \<open>light\<close>, of type string.
  The validated store checks for a string, and its producer numbers the defaults it
  hands out (\<open>light0\<close>, \<open>light1\<close>, ...) in the program's state. A second validated
  store has a producer that counts its calls and throws.
\<close>

definition theme_store :: TypedLocalStorage where
  "theme_store = \<lparr>TypedLocalStorage.key = ''theme'', defaultValue = JString ''light''\<rparr>"

definition string_schema :: "jsvalue \<Rightarrow> exn + jsvalue" where
  "string_schema v = (if is_string v then Inr v else Inl (ZodError ''Expected string''))"

definition numbered_light :: "nat \<Rightarrow> (exn + jsvalue) \<times> nat" where
  "numbered_light n = (Inr (JString (''light'' @ digits_of n)), Suc n)"

definition failing_default :: "nat \<Rightarrow> (exn + jsvalue) \<times> nat" where
  "failing_default n = (Inl (Error ''no default''), Suc n)"

definition zod_theme_store :: "nat ZodLocalStorage" where
  "zod_theme_store =
     \<lparr>ZodLocalStorage.key = ''theme'', schema = string_schema, getDefaultValue = numbered_light\<rparr>"

definition failing_theme_store :: "nat ZodLocalStorage" where
  "failing_theme_store =
     \<lparr>ZodLocalStorage.key = ''theme'', schema = string_schema, getDefaultValue = failing_default\<rparr>"

definition page :: "(string \<times> string) list \<Rightarrow> bool \<Rightarrow> nat \<Rightarrow> nat window" where
  "page kvs ok q = \<lparr>localStorage = \<lparr>items = kvs, available = ok, quota = q\<rparr>, program = 0\<rparr>"

section \<open>Facts used throughout\<close>

lemma JSON_parse_empty: "JSON_parse [] = Inl SyntaxError"
  by (simp add: JSON_parse_def)

lemmas js_defs = js_return_def js_throw_def js_bind_def js_lift_def try_catch_def
  window_localStorage_def call_producer_def getItem_def setItem_def removeItem_def

lemmas words_defs = stored_text_def missing_key_def read_error_def malformed_JSON_def
  validation_failure_def

lemmas parse_defs = JSON_parse_def emit_def is_ws_def is_digit_def is_num_char_def number_of_def
  digits_val_def digit_val_def unescape_def

lemmas text_defs = JSON_stringify_def ToString_def quote_def escape_char_def number_text_def
  digit_char_def

lemmas theme_defs = theme_store_def zod_theme_store_def string_schema_def is_string_def
  numbered_light_def page_def failing_theme_store_def failing_default_def

section \<open>Properties of the reference unwrapper\<close>

text \<open>
  C4: \<open>derefNotNull\<close> applied to a reference cell whose current value is \<open>null\<close> throws a
  \<open>ReferenceError\<close> whose message is exactly "Attempting to dereference null object.".
\<close>

theorem derefNotNull_null_throws:
  assumes "current (h ref) = None"
  shows "fst (derefNotNull ref h) = Inl (ReferenceError ''Attempting to dereference null object.'')"
  using assms by (simp add: derefNotNull_def js_throw_def)

theorem derefNotNull_null_throws_witness:
  "current ((\<lambda>_. \<lparr>current = None :: nat option\<rparr>) 0) = None \<and>
   fst (derefNotNull 0 (\<lambda>_. \<lparr>current = None :: nat option\<rparr>))
     = Inl (ReferenceError ''Attempting to dereference null object.'')"
  using derefNotNull_null_throws [of "\<lambda>_. \<lparr>current = None :: nat option\<rparr>" 0] by simp

text \<open>
  C5: for every non-null value \<open>x\<close>, \<open>derefNotNull\<close> applied to a reference cell currently
  holding \<open>x\<close> returns \<open>x\<close> unchanged, and leaves that cell and every other cell as it was.
\<close>

theorem derefNotNull_returns_value:
  assumes "current (h ref) = Some x"
  shows "derefNotNull ref h = (Inr x, h)"
  using assms by (simp add: derefNotNull_def js_return_def)

theorem derefNotNull_returns_value_witness:
  "current ((\<lambda>_. \<lparr>current = Some (7 :: nat)\<rparr>) 0) = Some 7 \<and>
   derefNotNull 0 (\<lambda>_. \<lparr>current = Some (7 :: nat)\<rparr>) = (Inr 7, \<lambda>_. \<lparr>current = Some 7\<rparr>)"
  using derefNotNull_returns_value [of "\<lambda>_. \<lparr>current = Some (7 :: nat)\<rparr>" 0 7] by simp

section \<open>Properties of the stores\<close>

text \<open>
  What \<open>get\<close> of a validated store does when it falls back to the default. On a storage
  that cannot be read, and on a stored text that does not parse or fails the schema, the
  \<open>catch\<close> calls the producer once. On a missing key and on the empty text the \<open>try\<close> calls
  the producer, and the \<open>catch\<close> calls it again if that call threw.
\<close>

lemma call_producer_eq:
  "call_producer f w = (fst (f (program w)), w\<lparr>program := snd (f (program w))\<rparr>)"
  by (simp add: call_producer_def split: prod.splits)

lemma zod_get_unavailable:
  assumes "\<not> available (localStorage w)"
  shows "ZodLocalStorage_get z w = call_producer (getDefaultValue z) w"
  using assms
  by (auto simp: ZodLocalStorage_get_def js_defs split: prod.splits sum.splits)

lemma zod_get_stored:
  assumes "available (localStorage w)" and "stored_text (ZodLocalStorage.key z) w = Some text"
    and "text \<noteq> []"
  shows "ZodLocalStorage_get z w =
           (case JSON_parse text of
              Inl e \<Rightarrow> call_producer (getDefaultValue z) w
            | Inr v \<Rightarrow> (case schema z v of
                         Inl e \<Rightarrow> call_producer (getDefaultValue z) w
                       | Inr x \<Rightarrow> (Inr x, w)))"
  using assms
  by (auto simp: ZodLocalStorage_get_def js_defs stored_text_def
      split: sum.splits prod.splits)

lemma zod_get_falsy:
  assumes "available (localStorage w)"
    and "stored_text (ZodLocalStorage.key z) w = None \<or> stored_text (ZodLocalStorage.key z) w = Some []"
  shows "ZodLocalStorage_get z w =
           try_catch (call_producer (getDefaultValue z)) (call_producer (getDefaultValue z)) w"
  using assms
  by (auto simp: ZodLocalStorage_get_def js_defs stored_text_def split: prod.splits sum.splits)

lemma zod_get_undecodable:
  assumes "stored_text (ZodLocalStorage.key z) w = Some text"
    and "JSON_parse text = Inl e \<or> (JSON_parse text = Inr v \<and> schema z v = Inl e')"
    and "text \<noteq> [] \<or> \<not> available (localStorage w)"
  shows "ZodLocalStorage_get z w = call_producer (getDefaultValue z) w"
proof (cases "available (localStorage w)")
  case True
  with assms have "text \<noteq> []" by blast
  with True assms(1,2) show ?thesis
    by (auto simp: zod_get_stored)
next
  case False
  then show ?thesis
    by (rule zod_get_unavailable)
qed

lemma zod_get_default_value:
  assumes "getDefaultValue z (program w) = (Inr d, u')"
    and "\<not> available (localStorage w) \<or> stored_text (ZodLocalStorage.key z) w = None
         \<or> (\<exists>text. stored_text (ZodLocalStorage.key z) w = Some text \<and>
               (JSON_parse text = Inl e \<or> (JSON_parse text = Inr v \<and> schema z v = Inl e')))"
  shows "ZodLocalStorage_get z w = (Inr d, w\<lparr>program := u'\<rparr>)"
  using assms
  by (auto simp: ZodLocalStorage_get_def js_defs stored_text_def JSON_parse_empty
      split: sum.splits prod.splits option.splits)

lemma zod_get_raises:
  assumes "fst (ZodLocalStorage_get z w) = Inl e"
  shows "\<exists>u. fst (getDefaultValue z u) = Inl e"
proof -
  let ?p = "call_producer (getDefaultValue z)"
  have pe: "\<exists>u. fst (getDefaultValue z u) = Inl e" if "fst (?p x) = Inl e" for x :: "'a window"
    using that by (auto simp: call_producer_eq)
  have "ZodLocalStorage_get z w = ?p w \<or>
        ZodLocalStorage_get z w = try_catch ?p ?p w \<or>
        (\<exists>x. ZodLocalStorage_get z w = (Inr x, w))"
  proof (cases "available (localStorage w)")
    case False
    then show ?thesis by (simp add: zod_get_unavailable)
  next
    case True
    show ?thesis
    proof (cases "stored_text (ZodLocalStorage.key z) w")
      case None
      with True show ?thesis by (simp add: zod_get_falsy)
    next
      case (Some stored)
      show ?thesis
      proof (cases "stored = []")
        case True
        with \<open>available (localStorage w)\<close> Some show ?thesis by (simp add: zod_get_falsy)
      next
        case False
        with \<open>available (localStorage w)\<close> Some show ?thesis
          by (auto simp: zod_get_stored split: sum.splits)
      qed
    qed
  qed
  moreover have "\<exists>u. fst (getDefaultValue z u) = Inl e" if "fst (try_catch ?p ?p w) = Inl e"
  proof (cases "?p w")
    case (Pair r w1)
    with that have "fst (?p w1) = Inl e"
      by (cases r) (simp_all add: try_catch_def)
    then show ?thesis by (rule pe)
  qed
  ultimately show ?thesis
    using assms pe [of w] by auto
qed

text \<open>
  C1, as the code has it: for every storage state and every configured key and default,
  \<open>get\<close> on a typed store never raises to its caller, and \<open>get\<close> on a validated store
  raises nothing but an error that its own default-value producer threw. On any failure
  (missing key, storage read error, malformed JSON or, for the validated store, schema
  validation failure) \<open>get\<close> returns the configured default instead of propagating the
  failure: for the validated store, the value its producer returns in the state of the
  call.
\<close>

theorem get_raises_only_from_producer:
  "(\<exists>v. fst (TypedLocalStorage_get t w) = Inr v) \<and>
   (missing_key (TypedLocalStorage.key t) w \<or> read_error w \<or> malformed_JSON (TypedLocalStorage.key t) w
      \<longrightarrow> fst (TypedLocalStorage_get t w) = Inr (defaultValue t)) \<and>
   (fst (ZodLocalStorage_get z w) = Inl e \<longrightarrow> (\<exists>u. fst (getDefaultValue z u) = Inl e)) \<and>
   ((missing_key (ZodLocalStorage.key z) w \<or> read_error w \<or> malformed_JSON (ZodLocalStorage.key z) w
       \<or> validation_failure z w) \<and> fst (getDefaultValue z (program w)) = Inr d
      \<longrightarrow> fst (ZodLocalStorage_get z w) = Inr d)"
proof -
  have typed: "(\<exists>v. fst (TypedLocalStorage_get t w) = Inr v) \<and>
     (missing_key (TypedLocalStorage.key t) w \<or> read_error w \<or> malformed_JSON (TypedLocalStorage.key t) w
        \<longrightarrow> fst (TypedLocalStorage_get t w) = Inr (defaultValue t))"
    by (auto simp: TypedLocalStorage_get_def js_defs words_defs JSON_parse_empty
        split: option.splits sum.splits prod.splits)
  have raises: "fst (ZodLocalStorage_get z w) = Inl e \<longrightarrow> (\<exists>u. fst (getDefaultValue z u) = Inl e)"
    using zod_get_raises [of z w e] by blast
  have fallback: "(missing_key (ZodLocalStorage.key z) w \<or> read_error w
       \<or> malformed_JSON (ZodLocalStorage.key z) w \<or> validation_failure z w)
       \<and> fst (getDefaultValue z (program w)) = Inr d
      \<longrightarrow> fst (ZodLocalStorage_get z w) = Inr d"
    by (auto simp: ZodLocalStorage_get_def js_defs words_defs JSON_parse_empty
        split: option.splits sum.splits prod.splits)
  from typed raises fallback show ?thesis
    by blast
qed

theorem get_raises_only_from_producer_witness:
  \<open>malformed_JSON ''theme'' (page [(''theme'', ''dark'')] True 100) \<and>
   fst (TypedLocalStorage_get theme_store (page [(''theme'', ''dark'')] True 100)) = Inr (JString ''light'') \<and>
   validation_failure zod_theme_store (page [(''theme'', ''42'')] True 100) \<and>
   fst (getDefaultValue zod_theme_store (program (page [(''theme'', ''42'')] True 100)))
     = Inr (JString ''light0'') \<and>
   fst (ZodLocalStorage_get zod_theme_store (page [(''theme'', ''42'')] True 100)) = Inr (JString ''light0'') \<and>
   fst (ZodLocalStorage_get failing_theme_store (page [(''theme'', ''42'')] True 100))
     = Inl (Error ''no default'') \<and>
   (\<exists>u. fst (getDefaultValue failing_theme_store u) = Inl (Error ''no default''))\<close>
proof -
  have r: \<open>fst (ZodLocalStorage_get failing_theme_store (page [(''theme'', ''42'')] True 100))
     = Inl (Error ''no default'')\<close>
    by (simp add: ZodLocalStorage_get_def js_defs theme_defs parse_defs)
  have d: \<open>fst (getDefaultValue zod_theme_store (program (page [(''theme'', ''42'')] True 100)))
     = Inr (JString ''light0'')\<close>
    by (simp add: theme_defs text_defs)
  from get_raises_only_from_producer
         [of theme_store \<open>page [(''theme'', ''dark'')] True 100\<close> zod_theme_store
             \<open>Error ''no default''\<close> \<open>JString ''light0''\<close>]
       get_raises_only_from_producer
         [of theme_store \<open>page [(''theme'', ''42'')] True 100\<close> zod_theme_store
             \<open>Error ''no default''\<close> \<open>JString ''light0''\<close>]
       get_raises_only_from_producer
         [of theme_store \<open>page [(''theme'', ''42'')] True 100\<close> failing_theme_store
             \<open>Error ''no default''\<close> \<open>JString ''light0''\<close>]
       r d
  show ?thesis
    by (simp add: words_defs theme_store_def page_def zod_theme_store_def string_schema_def
          is_string_def parse_defs)
qed

text \<open>
  C1, as the claim words it, fails on the validated store: \<open>get\<close> calls the producer in
  the \<open>try\<close> and again, unguarded, in the \<open>catch\<close>. With no entry under the key and a
  producer that throws, both calls throw and \<open>get\<close> raises to its caller.
\<close>

theorem zod_get_raises_counterexample:
  \<open>missing_key (ZodLocalStorage.key failing_theme_store) (page [] True 100) \<and>
   ZodLocalStorage_get failing_theme_store (page [] True 100)
     = (Inl (Error ''no default''), (page [] True 100)\<lparr>program := 2\<rparr>)\<close>
  by (simp add: ZodLocalStorage_get_def js_defs words_defs theme_defs)

text \<open>
  What \<open>get\<close> returns after a \<open>set\<close> that returned: the value that
  \<open>JSON.parse(JSON.stringify(v))\<close> builds, or the default when that text does not parse.
\<close>

lemma set_returns:
  assumes "window_localStorage (setItem k text) w = (Inr (), w')"
  shows "available (localStorage w') \<and> stored_text k w' = Some text \<and> program w' = program w"
  using assms
  by (auto simp: js_defs stored_text_def update_conv' split: if_splits)

lemma typed_get_stored:
  assumes "available (localStorage w)" and "stored_text (TypedLocalStorage.key t) w = Some text"
  shows "TypedLocalStorage_get t w =
           (Inr (case JSON_parse text of Inl e \<Rightarrow> defaultValue t | Inr v \<Rightarrow> v), w)"
  using assms
  by (auto simp: TypedLocalStorage_get_def js_defs stored_text_def JSON_parse_empty
      split: sum.splits)

text \<open>
  C2: for all values \<open>v\<close> and every key, \<open>set(v)\<close> on a typed store followed by \<open>get()\<close>
  returns a value deep-equal to \<open>v\<close>, provided that JSON round-tripping (stringify, then
  parse) preserves \<open>v\<close>. "Followed by": \<open>set\<close> returned, leaving the page \<open>w'\<close>. Values are
  trees, and deep equality of trees is equality.
\<close>

theorem set_then_get_roundtrip:
  assumes "TypedLocalStorage_set t v w = (Inr (), w')"
    and "json_roundtrip v = Inr v"
  shows "TypedLocalStorage_get t w' = (Inr v, w')"
proof -
  let ?text = "ToString (JSON_stringify v)"
  from assms(1) have "available (localStorage w')"
    and "stored_text (TypedLocalStorage.key t) w' = Some ?text"
    using set_returns [of "TypedLocalStorage.key t" ?text w w']
    by (simp_all add: TypedLocalStorage_set_def)
  then have "TypedLocalStorage_get t w' =
      (Inr (case JSON_parse ?text of Inl e \<Rightarrow> defaultValue t | Inr x \<Rightarrow> x), w')"
    by (rule typed_get_stored)
  with assms(2) show ?thesis
    by (simp add: json_roundtrip_def)
qed

theorem set_then_get_roundtrip_witness:
  \<open>TypedLocalStorage_set theme_store (JString ''dark'') (page [] True 100)
     = (Inr (), page [(''theme'', ''"dark"'')] True 100) \<and>
   json_roundtrip (JString ''dark'') = Inr (JString ''dark'') \<and>
   TypedLocalStorage_get theme_store (page [(''theme'', ''"dark"'')] True 100)
     = (Inr (JString ''dark''), page [(''theme'', ''"dark"'')] True 100)\<close>
proof -
  have s: \<open>TypedLocalStorage_set theme_store (JString ''dark'') (page [] True 100)
     = (Inr (), page [(''theme'', ''"dark"'')] True 100)\<close>
    by (simp add: TypedLocalStorage_set_def js_defs theme_defs text_defs usage_def)
  have r: \<open>json_roundtrip (JString ''dark'') = Inr (JString ''dark'')\<close>
    by (simp add: json_roundtrip_def text_defs parse_defs)
  from set_then_get_roundtrip [OF s r] s r show ?thesis by simp
qed

text \<open>
  C3, as the code has it: for a validated store, whenever the text stored at the key
  parses as JSON but fails validation against the schema, \<open>get()\<close> invokes the producer
  once, on that call, and the outcome of that invocation is the outcome of \<open>get()\<close>: it
  returns the value the producer returns in the program state of the call (not a cached
  value), it throws only what the producer throws, and the program state is the one that
  invocation leaves.
\<close>

theorem zod_get_invalid_invokes_producer:
  assumes "stored_text (ZodLocalStorage.key z) w = Some text"
    and "JSON_parse text = Inr v"
    and "schema z v = Inl e"
  shows "ZodLocalStorage_get z w =
           (fst (getDefaultValue z (program w)), w\<lparr>program := snd (getDefaultValue z (program w))\<rparr>)"
proof -
  from assms(2) have "text \<noteq> []"
    by (auto simp: JSON_parse_empty)
  with assms have "ZodLocalStorage_get z w = call_producer (getDefaultValue z) w"
    using zod_get_undecodable [of z w _ SyntaxError v e] by simp
  then show ?thesis
    by (simp add: call_producer_eq)
qed

theorem zod_get_invalid_invokes_producer_witness:
  \<open>stored_text (ZodLocalStorage.key zod_theme_store) (page [(''theme'', ''42'')] True 100) = Some ''42'' \<and>
   JSON_parse ''42'' = Inr (JNumber (Decimal 42 0)) \<and>
   schema zod_theme_store (JNumber (Decimal 42 0)) = Inl (ZodError ''Expected string'') \<and>
   ZodLocalStorage_get zod_theme_store (page [(''theme'', ''42'')] True 100)
     = (Inr (JString ''light0''), (page [(''theme'', ''42'')] True 100)\<lparr>program := 1\<rparr>) \<and>
   ZodLocalStorage_get zod_theme_store ((page [(''theme'', ''42'')] True 100)\<lparr>program := 1\<rparr>)
     = (Inr (JString ''light1''), (page [(''theme'', ''42'')] True 100)\<lparr>program := 2\<rparr>)\<close>
proof -
  have p: \<open>JSON_parse ''42'' = Inr (JNumber (Decimal 42 0))\<close>
    by (simp add: parse_defs)
  have v: \<open>schema zod_theme_store (JNumber (Decimal 42 0)) = Inl (ZodError ''Expected string'')\<close>
    by (simp add: theme_defs)
  have s0: \<open>stored_text (ZodLocalStorage.key zod_theme_store) (page [(''theme'', ''42'')] True 100) = Some ''42''\<close>
    by (simp add: stored_text_def theme_defs)
  have s1: \<open>stored_text (ZodLocalStorage.key zod_theme_store)
      ((page [(''theme'', ''42'')] True 100)\<lparr>program := 1\<rparr>) = Some ''42''\<close>
    by (simp add: stored_text_def theme_defs)
  from zod_get_invalid_invokes_producer [OF s0 p v]
    zod_get_invalid_invokes_producer [OF s1 p v] s0 p v
  show ?thesis
    by (simp add: theme_defs text_defs)
qed

text \<open>
  C3, as the claim words it, fails where it says that \<open>get()\<close> does not throw: the
  \<open>catch\<close> calls the producer unguarded. With the stored text \<open>42\<close>, which parses and is
  not a string, and a producer that throws, \<open>get()\<close> throws the producer's error.
\<close>

theorem zod_get_invalid_throws_counterexample:
  \<open>stored_text (ZodLocalStorage.key failing_theme_store) (page [(''theme'', ''42'')] True 100) = Some ''42'' \<and>
   JSON_parse ''42'' = Inr (JNumber (Decimal 42 0)) \<and>
   schema failing_theme_store (JNumber (Decimal 42 0)) = Inl (ZodError ''Expected string'') \<and>
   ZodLocalStorage_get failing_theme_store (page [(''theme'', ''42'')] True 100)
     = (Inl (Error ''no default''), (page [(''theme'', ''42'')] True 100)\<lparr>program := 1\<rparr>)\<close>
  by (simp add: ZodLocalStorage_get_def js_defs stored_text_def theme_defs parse_defs)

text \<open>
  C6: \<open>set(value)\<close> on a typed store or a validated store does not catch a failure of
  the underlying storage write: whenever \<open>setItem\<close> fails on the storage (for example
  because the quota is exceeded), \<open>set\<close> raises that same error to its caller, and the
  page is as it was.
\<close>

theorem set_propagates_write_failure:
  "(fst (setItem (TypedLocalStorage.key t) (ToString (JSON_stringify v)) (localStorage w)) = Inl e
      \<longrightarrow> TypedLocalStorage_set t v w = (Inl e, w)) \<and>
   (fst (setItem (ZodLocalStorage.key z) (ToString (JSON_stringify v)) (localStorage w)) = Inl e
      \<longrightarrow> ZodLocalStorage_set z v w = (Inl e, w))"
  by (auto simp: TypedLocalStorage_set_def ZodLocalStorage_set_def js_defs split: if_splits)

theorem set_propagates_write_failure_witness:
  \<open>fst (setItem ''theme'' ''"dark"'' (localStorage (page [] True 10))) = Inl QuotaExceededError \<and>
   TypedLocalStorage_set theme_store (JString ''dark'') (page [] True 10)
     = (Inl QuotaExceededError, page [] True 10) \<and>
   ZodLocalStorage_set zod_theme_store (JString ''dark'') (page [] True 10)
     = (Inl QuotaExceededError, page [] True 10)\<close>
proof -
  have k: \<open>TypedLocalStorage.key theme_store = ''theme''\<close> \<open>ZodLocalStorage.key zod_theme_store = ''theme''\<close>
    and x: \<open>ToString (JSON_stringify (JString ''dark'')) = ''"dark"''\<close>
    by (simp_all add: theme_defs text_defs)
  have f: \<open>fst (setItem ''theme'' ''"dark"'' (localStorage (page [] True 10))) = Inl QuotaExceededError\<close>
    by (simp add: js_defs page_def usage_def)
  from set_propagates_write_failure
         [of theme_store \<open>JString ''dark''\<close> \<open>page [] True 10\<close> QuotaExceededError zod_theme_store]
  show ?thesis
    by (simp add: k x f)
qed

text \<open>
  C7, as the code has it: for every storage state in which the storage is available,
  \<open>remove()\<close> on a validated store returns, deletes the entry at the configured key if
  present (every other key keeps its text) and is a no-op if absent, and a \<open>get()\<close> that
  follows it returns the freshly computed default, the value the producer returns on that
  call. On a storage that is not available \<open>remove()\<close> raises the storage's error and
  changes nothing.
\<close>

theorem zod_remove_then_get_default:
  "(available (localStorage w) \<longrightarrow>
      fst (ZodLocalStorage_remove z w) = Inr () \<and>
      stored_text k (snd (ZodLocalStorage_remove z w))
        = (if k = ZodLocalStorage.key z then None else stored_text k w) \<and>
      (stored_text (ZodLocalStorage.key z) w = None \<longrightarrow> snd (ZodLocalStorage_remove z w) = w) \<and>
      (getDefaultValue z (program w) = (Inr d, u') \<longrightarrow>
         ZodLocalStorage_get z (snd (ZodLocalStorage_remove z w))
           = (Inr d, (snd (ZodLocalStorage_remove z w))\<lparr>program := u'\<rparr>))) \<and>
   (\<not> available (localStorage w) \<longrightarrow> ZodLocalStorage_remove z w = (Inl SecurityError, w))"
proof -
  let ?w' = "snd (ZodLocalStorage_remove z w)"
  have unavailable: "\<not> available (localStorage w) \<longrightarrow> ZodLocalStorage_remove z w = (Inl SecurityError, w)"
    by (simp add: ZodLocalStorage_remove_def js_defs)
  have "fst (ZodLocalStorage_remove z w) = Inr () \<and>
      stored_text k ?w' = (if k = ZodLocalStorage.key z then None else stored_text k w) \<and>
      (stored_text (ZodLocalStorage.key z) w = None \<longrightarrow> ?w' = w) \<and>
      (getDefaultValue z (program w) = (Inr d, u') \<longrightarrow>
         ZodLocalStorage_get z ?w' = (Inr d, ?w'\<lparr>program := u'\<rparr>))"
    if av: "available (localStorage w)"
  proof -
    from av have ret: "fst (ZodLocalStorage_remove z w) = Inr ()"
      by (simp add: ZodLocalStorage_remove_def js_defs)
    from av have stored: "stored_text k ?w' = (if k = ZodLocalStorage.key z then None else stored_text k w)"
      by (simp add: ZodLocalStorage_remove_def js_defs stored_text_def delete_conv')
    from av have noop: "stored_text (ZodLocalStorage.key z) w = None \<longrightarrow> ?w' = w"
      by (simp add: ZodLocalStorage_remove_def js_defs stored_text_def map_of_eq_None_iff delete_id)
    from av have prog: "program ?w' = program w"
      by (simp add: ZodLocalStorage_remove_def js_defs)
    from av have gone: "stored_text (ZodLocalStorage.key z) ?w' = None"
      by (simp add: ZodLocalStorage_remove_def js_defs stored_text_def delete_conv')
    have "ZodLocalStorage_get z ?w' = (Inr d, ?w'\<lparr>program := u'\<rparr>)"
      if "getDefaultValue z (program w) = (Inr d, u')"
      using that gone zod_get_default_value [of z ?w' d u'] by (simp add: prog)
    with ret stored noop show ?thesis
      by blast
  qed
  with unavailable show ?thesis
    by blast
qed

theorem zod_remove_then_get_default_witness:
  \<open>available (localStorage (page [(''other'', ''1'')] True 100)) \<and>
   stored_text ''theme'' (page [(''other'', ''1'')] True 100) = None \<and>
   snd (ZodLocalStorage_remove zod_theme_store (page [(''other'', ''1'')] True 100))
     = page [(''other'', ''1'')] True 100 \<and>
   snd (ZodLocalStorage_remove zod_theme_store (page [(''theme'', ''"dark"''), (''other'', ''1'')] True 100))
     = page [(''other'', ''1'')] True 100 \<and>
   getDefaultValue zod_theme_store (program (page [(''other'', ''1'')] True 100))
     = (Inr (JString ''light0''), 1) \<and>
   ZodLocalStorage_get zod_theme_store (page [(''other'', ''1'')] True 100)
     = (Inr (JString ''light0''), (page [(''other'', ''1'')] True 100)\<lparr>program := 1\<rparr>) \<and>
   \<not> available (localStorage (page [(''theme'', ''"dark"'')] False 100)) \<and>
   ZodLocalStorage_remove zod_theme_store (page [(''theme'', ''"dark"'')] False 100)
     = (Inl SecurityError, page [(''theme'', ''"dark"'')] False 100)\<close>
proof -
  have k: \<open>ZodLocalStorage.key zod_theme_store = ''theme''\<close>
    by (simp add: theme_defs)
  have a: \<open>stored_text ''theme'' (page [(''other'', ''1'')] True 100) = None\<close>
    \<open>available (localStorage (page [(''other'', ''1'')] True 100))\<close>
    \<open>available (localStorage (page [(''theme'', ''"dark"''), (''other'', ''1'')] True 100))\<close>
    \<open>\<not> available (localStorage (page [(''theme'', ''"dark"'')] False 100))\<close>
    by (simp_all add: stored_text_def page_def)
  have r: \<open>snd (ZodLocalStorage_remove zod_theme_store (page [(''theme'', ''"dark"''), (''other'', ''1'')] True 100))
     = page [(''other'', ''1'')] True 100\<close>
    by (simp add: ZodLocalStorage_remove_def js_defs theme_defs)
  have d: \<open>getDefaultValue zod_theme_store (program (page [(''other'', ''1'')] True 100))
     = (Inr (JString ''light0''), 1)\<close>
    \<open>getDefaultValue zod_theme_store (program (page [(''theme'', ''"dark"''), (''other'', ''1'')] True 100))
     = (Inr (JString ''light0''), 1)\<close>
    by (simp_all add: theme_defs text_defs)
  from zod_remove_then_get_default
         [of \<open>page [(''theme'', ''"dark"''), (''other'', ''1'')] True 100\<close> zod_theme_store \<open>''theme''\<close>
             \<open>JString ''light0''\<close> 1]
       zod_remove_then_get_default
         [of \<open>page [(''other'', ''1'')] True 100\<close> zod_theme_store \<open>''theme''\<close> \<open>JString ''light0''\<close> 1]
       zod_remove_then_get_default
         [of \<open>page [(''theme'', ''"dark"'')] False 100\<close> zod_theme_store \<open>''theme''\<close>
             \<open>JString ''light0''\<close> 1]
  show ?thesis
    by (simp add: k a r d)
qed

text \<open>
  C7, as the claim words it, fails on a storage that the page may not use: \<open>remove()\<close>
  reaches \<open>window.localStorage\<close> outside any \<open>try\<close>, as \<open>set\<close> does. The entry under the
  key is present, \<open>remove()\<close> raises \<open>SecurityError\<close>, and the entry is still there.
\<close>

theorem zod_remove_unavailable_counterexample:
  \<open>stored_text (ZodLocalStorage.key zod_theme_store) (page [(''theme'', ''"dark"'')] False 100)
     = Some ''"dark"'' \<and>
   ZodLocalStorage_remove zod_theme_store (page [(''theme'', ''"dark"'')] False 100)
     = (Inl SecurityError, page [(''theme'', ''"dark"'')] False 100) \<and>
   stored_text (ZodLocalStorage.key zod_theme_store)
     (snd (ZodLocalStorage_remove zod_theme_store (page [(''theme'', ''"dark"'')] False 100)))
     = Some ''"dark"''\<close>
  by (simp add: ZodLocalStorage_remove_def js_defs stored_text_def theme_defs)

text \<open>
  C9: \<open>get()\<close> on a typed store or a validated store never mutates the key-value store:
  for every storage state, the storage after \<open>get()\<close> is the storage before; the default
  is returned, never written. (The typed store leaves the whole page as it was.)
\<close>

theorem get_leaves_storage:
  "snd (TypedLocalStorage_get t w) = w \<and>
   localStorage (snd (ZodLocalStorage_get z w)) = localStorage w"
  by (auto simp: TypedLocalStorage_get_def ZodLocalStorage_get_def js_defs
      split: option.splits sum.splits prod.splits)






section \<open>Values that JSON does not carry\<close>

text \<open>
  The round-trip law of \<open>set\<close> and \<open>get\<close> is not claimed for values that JSON cannot
  represent. After \<open>set(undefined)\<close> the store holds the text \<open>undefined\<close>, which does
  not parse, and \<open>get()\<close> returns the default; after \<open>set(NaN)\<close> it returns \<open>null\<close>.
\<close>

lemma set_undefined_then_get:
  \<open>TypedLocalStorage_set theme_store JUndefined (page [] True 100)
     = (Inr (), page [(''theme'', ''undefined'')] True 100) \<and>
   TypedLocalStorage_get theme_store (page [(''theme'', ''undefined'')] True 100)
     = (Inr (JString ''light''), page [(''theme'', ''undefined'')] True 100)\<close>
proof -
  have p: \<open>JSON_parse ''undefined'' = Inl SyntaxError\<close>
    by (simp add: parse_defs)
  have a: \<open>available (localStorage (page [(''theme'', ''undefined'')] True 100))\<close>
    \<open>stored_text (TypedLocalStorage.key theme_store) (page [(''theme'', ''undefined'')] True 100)
       = Some ''undefined''\<close>
    by (simp_all add: stored_text_def theme_defs)
  have s: \<open>TypedLocalStorage_set theme_store JUndefined (page [] True 100)
     = (Inr (), page [(''theme'', ''undefined'')] True 100)\<close>
    by (simp add: TypedLocalStorage_set_def js_defs theme_defs text_defs usage_def)
  from typed_get_stored [OF a] p s show ?thesis
    by (simp add: theme_defs)
qed

lemma set_NaN_then_get:
  \<open>TypedLocalStorage_set theme_store (JNumber NaN) (page [] True 100)
     = (Inr (), page [(''theme'', ''null'')] True 100) \<and>
   TypedLocalStorage_get theme_store (page [(''theme'', ''null'')] True 100)
     = (Inr JNull, page [(''theme'', ''null'')] True 100)\<close>
proof -
  have p: \<open>JSON_parse ''null'' = Inr JNull\<close>
    by (simp add: parse_defs)
  have a: \<open>available (localStorage (page [(''theme'', ''null'')] True 100))\<close>
    \<open>stored_text (TypedLocalStorage.key theme_store) (page [(''theme'', ''null'')] True 100)
       = Some ''null''\<close>
    by (simp_all add: stored_text_def theme_defs)
  have s: \<open>TypedLocalStorage_set theme_store (JNumber NaN) (page [] True 100)
     = (Inr (), page [(''theme'', ''null'')] True 100)\<close>
    by (simp add: TypedLocalStorage_set_def js_defs theme_defs text_defs usage_def)
  from typed_get_stored [OF a] p s show ?thesis
    by simp
qed

end
